theory Spec2Isabelle
  imports Complex_Main
begin

section \<open>Python strings\<close>

text \<open>
  A Python \<open>str\<close> is modelled as a \<open>string\<close>: a list of characters, each read as the code
  point of the same number, so the model covers the strings over U+0000..U+00FF. On
  that range \<open>str.strip()\<close> and the regular expression class \<open>\s\<close> remove and match the
  characters below, and \<open>\d\<close> matches the ten ASCII digits. Python's \<open>float\<close> is modelled
  as \<open>real\<close>: sums, products and comparisons are the exact ones.
\<close>

definition isspace :: "char \<Rightarrow> bool" where
  "isspace c = (of_char c \<in> {9, 10, 11, 12, 13, 28, 29, 30, 31, 32, 133, 160 :: nat})"

definition strip :: "string \<Rightarrow> string" where
  "strip s = rev (dropWhile isspace (rev (dropWhile isspace s)))"

definition digit_char :: "nat \<Rightarrow> char" where
  "digit_char d = ''0123456789'' ! d"

text \<open>\<open>str(n)\<close> of a natural number, as an f-string prints it.\<close>

function str_nat :: "nat \<Rightarrow> string" where
  "str_nat n = (if n < 10 then [digit_char n] else str_nat (n div 10) @ [digit_char (n mod 10)])"
  by pat_completeness auto
termination
  by (relation "measure id") auto

declare str_nat.simps [simp del]

section \<open>The data model of \<open>app/rpd/extractor.py\<close>\<close>

text \<open>
  The four dataclasses, with the field types they declare. \<open>LabExample\<close> and
  \<open>LiteratureReference\<close> repeat field names of the other classes; their fields carry a
  prefix.
\<close>

record LectureTheme =
  title :: string
  order :: int
  hours :: real
  description :: "string option"

record LabExample =
  lab_title :: string
  lab_description :: string
  theme_relation :: "string option"
  estimated_hours :: "real option"

record LiteratureReference =
  authors :: string
  ref_title :: string
  ref_year :: "int option"
  pages :: "string option"
  publisher :: "string option"
  isbn :: "string option"
  kpfu_available :: bool
  kpfu_book_id :: "string option"

record RPDData =
  subject_title :: string
  academic_degree :: string
  profession :: string
  total_hours :: int
  department :: "string option"
  faculty :: "string option"
  year :: "int option"
  semester :: "string option"
  lecture_themes :: "LectureTheme list"
  lab_examples :: "LabExample list"
  literature_references :: "LiteratureReference list"
  extraction_confidence :: "real option"
  extraction_errors :: "string list"

section \<open>The validator: \<open>RPDDataExtractor._validate_rpd_data\<close>\<close>

definition valid_degrees :: "string list" where
  "valid_degrees = [''bachelor'', ''master'', ''phd'']"

definition degree_warning :: string where
  "degree_warning = ''Invalid academic degree, defaulted to '' @ [CHR 0x27] @ ''bachelor'' @ [CHR 0x27]"

definition empty_title_warning :: "nat \<Rightarrow> string" where
  "empty_title_warning i = ''Lecture theme '' @ str_nat (i + 1) @ '' has empty title''"

definition hours_warning :: "nat \<Rightarrow> string" where
  "hours_warning i = ''Lecture theme '' @ str_nat (i + 1) @ '' hours corrected to 2.0''"

text \<open>
  The loop \<open>for i, theme in enumerate(rpd_data.lecture_themes)\<close>: it walks the themes
  with their index, corrects the hours of a theme in place and appends to the local list
  \<open>errors\<close>. The model returns the themes as the loop leaves them, and \<open>errors\<close>. The
  themes of a record are distinct objects, as the orchestrator's list comprehension
  builds them, so a correction changes one element of the list.
\<close>

fun validate_themes :: "nat \<Rightarrow> LectureTheme list \<Rightarrow> string list \<Rightarrow> LectureTheme list \<times> string list" where
  "validate_themes i [] errors = ([], errors)"
| "validate_themes i (theme # rest) errors =
     (let errors = (if strip (title theme) = [] then errors @ [empty_title_warning i] else errors);
          (theme, errors) =
             (if hours theme \<le> 0 then (theme\<lparr>hours := 2.0\<rparr>, errors @ [hours_warning i])
              else (theme, errors));
          (rest, errors) = validate_themes (i + 1) rest errors
      in (theme # rest, errors))"

definition validate_rpd_data :: "RPDData \<Rightarrow> RPDData" where
  "validate_rpd_data rpd_data =
     (let errors = [];
          errors = (if strip (subject_title rpd_data) = []
                    then errors @ [''Subject title is required''] else errors);
          errors = (if strip (profession rpd_data) = []
                    then errors @ [''Profession/direction is required''] else errors);
          errors = (if total_hours rpd_data \<le> 0
                    then errors @ [''Total hours must be positive''] else errors);
          (rpd_data, errors) =
             (if academic_degree rpd_data \<notin> set valid_degrees
              then (rpd_data\<lparr>academic_degree := ''bachelor''\<rparr>, errors @ [degree_warning])
              else (rpd_data, errors));
          (themes, errors) = validate_themes 0 (lecture_themes rpd_data) errors;
          rpd_data = rpd_data\<lparr>lecture_themes := themes\<rparr>;
          confidence = (if errors \<noteq> [] then max 0.1 (1.0 - real (length errors) * 0.1) else 1.0)
      in rpd_data\<lparr>extraction_confidence := Some confidence,
                  extraction_errors := extraction_errors rpd_data @ errors\<rparr>)"

section \<open>The completeness scorer: \<open>RPDProcessor._calculate_completeness_score\<close>\<close>

definition calculate_completeness_score :: "RPDData \<Rightarrow> real" where
  "calculate_completeness_score rpd_data =
     (let score = 0.0;
          max_score = 10.0;
          score = (if subject_title rpd_data \<noteq> [] then score + 1.0 else score);
          score = (if profession rpd_data \<noteq> [] then score + 1.0 else score);
          score = (if total_hours rpd_data > 0 then score + 1.0 else score);
          score = (if academic_degree rpd_data \<in> set [''bachelor'', ''master'', ''phd'']
                   then score + 1.0 else score);
          score = (if lecture_themes rpd_data \<noteq> []
                   then score + min 3.0 (real (length (lecture_themes rpd_data)) / 5.0 * 3.0)
                   else score);
          score = (if literature_references rpd_data \<noteq> []
                   then score + min 2.0 (real (length (literature_references rpd_data)) / 5.0 * 2.0)
                   else score);
          score = (if lab_examples rpd_data \<noteq> []
                   then score + min 1.0 (real (length (lab_examples rpd_data)) / 3.0 * 1.0)
                   else score)
      in min 1.0 (score / max_score))"

text \<open>
  A name for the proofs: the local list \<open>errors\<close> of the validator as it stands when the
  loop over the themes starts.
\<close>

definition field_warnings :: "RPDData \<Rightarrow> string list" where
  "field_warnings r =
     (if strip (subject_title r) = [] then [''Subject title is required''] else []) @
     (if strip (profession r) = [] then [''Profession/direction is required''] else []) @
     (if total_hours r \<le> 0 then [''Total hours must be positive''] else []) @
     (if academic_degree r \<notin> set valid_degrees then [degree_warning] else [])"

section \<open>Exceptions\<close>

text \<open>
  An exception is modelled by the name of its class and by \<open>str(e)\<close>, its message. A
  function that can raise returns a sum: \<open>Inl e\<close> when it raises \<open>e\<close>, \<open>Inr v\<close> when it
  returns \<open>v\<close>. The classes that occur all derive from \<open>Exception\<close>, so \<open>except Exception\<close>
  catches every \<open>Inl e\<close>; \<open>except json.JSONDecodeError\<close> catches those of the class
  \<open>JSONDecodeError\<close>, which has no subclass.
\<close>

datatype exn = Exn (exn_class: string) (str_exn: string)

text \<open>
  The \<open>ValueError\<close> with which CPython refuses to convert a text of more than 4300 digits
  to an integer (the default of \<open>sys.set_int_max_str_digits\<close>, in 3.11 and in the
  security releases of 3.7 to 3.10): \<open>int\<close> raises it, and so does \<open>json.loads\<close> on an
  integer literal of that length.
\<close>

definition digit_limit_message :: "nat \<Rightarrow> string" where
  "digit_limit_message n =
     ''Exceeds the limit (4300 digits) for integer string conversion: value has '' @ str_nat n @
     '' digits; use sys.set_int_max_str_digits() to increase the limit''"

section \<open>The response parser: \<open>RPDDataExtractor._parse_json_response\<close>\<close>

text \<open>
  The values \<open>json.loads\<close> returns. \<open>json.loads\<close> itself belongs to Python's standard
  library, not to the repository: the parser takes it as the parameter \<open>loads\<close>, which
  returns the decoded value or the exception it raises. For a text that is not a JSON
  document that is a \<open>JSONDecodeError\<close>; for a JSON document beyond a limit of the
  interpreter it is another one: a plain \<open>ValueError\<close> for an integer literal of more than
  4300 digits, a \<open>RecursionError\<close> for brackets nested about a thousand deep.
\<close>

datatype pyval =
    PNone
  | PBool bool
  | PInt int
  | PFloat real
  | PStr string
  | PList "pyval list"
  | PDict "(string \<times> pyval) list"

text \<open>\<open>s.find(c)\<close> and \<open>s.rfind(c)\<close> for a one-character \<open>c\<close>: an index, or -1.\<close>

definition find_char :: "char \<Rightarrow> string \<Rightarrow> int" where
  "find_char c s =
     (if c \<in> set s then int (length (takeWhile (\<lambda>x. x \<noteq> c) s)) else - 1)"

definition rfind_char :: "char \<Rightarrow> string \<Rightarrow> int" where
  "rfind_char c s =
     (if c \<in> set s then int (length s) - 1 - int (length (takeWhile (\<lambda>x. x \<noteq> c) (rev s)))
      else - 1)"

text \<open>
  \<open>s[i:j]\<close> for \<open>0 \<le> i\<close> and \<open>0 \<le> j\<close>, the only slices the parser takes: the characters
  at the positions from \<open>i\<close> up to, not including, \<open>j\<close>; none when \<open>j \<le> i\<close>.
\<close>

definition slice :: "string \<Rightarrow> int \<Rightarrow> int \<Rightarrow> string" where
  "slice s i j = take (nat (j - i)) (drop (nat i) s)"

text \<open>
  The parser. Its \<open>try\<close> block has one handler, \<open>except json.JSONDecodeError\<close>, which
  returns \<open>None\<close>; any other exception of \<open>json.loads\<close> leaves the parser as it is.
  \<open>strip\<close>, \<open>find\<close>, \<open>rfind\<close> and the slice raise nothing on a \<open>str\<close>.
\<close>

definition parse_json_response :: "(string \<Rightarrow> exn + pyval) \<Rightarrow> string \<Rightarrow> exn + pyval option" where
  "parse_json_response loads json_text =
     (let json_text = strip json_text;
          start_idx = find_char CHR ''{'' json_text;
          end_idx = rfind_char CHR ''}'' json_text
      in if start_idx \<noteq> - 1 \<and> end_idx \<noteq> - 1
         then (let json_text = slice json_text start_idx (end_idx + 1)
               in case loads json_text of
                    Inr v \<Rightarrow> Inr (Some v)
                  | Inl e \<Rightarrow> if exn_class e = ''JSONDecodeError'' then Inr None else Inl e)
         else Inr None)"


section \<open>The literature fallback: \<open>RPDDataExtractor._extract_literature_fallback\<close>\<close>

text \<open>
  The regular expressions of the fallback, as far as its per-line pattern needs them: a
  character class once, repeated (\<open>*\<close>, \<open>+\<close>), an optional part (\<open>?\<close>), a sequence and a
  capturing group. All quantifiers are greedy.
\<close>

datatype rx =
    One "char \<Rightarrow> bool"
  | Many "char \<Rightarrow> bool"
  | Many1 "char \<Rightarrow> bool"
  | Opt rx
  | Seq rx rx
  | Group nat rx

type_synonym captures = "nat \<Rightarrow> string option"

text \<open>
  Python's \<open>re\<close> matches by backtracking. \<open>rx_match r s c k\<close> matches \<open>r\<close> at the start of
  \<open>s\<close>, with the groups captured so far in \<open>c\<close>, and hands the rest of the text and the
  groups to the continuation \<open>k\<close>, which matches what follows \<open>r\<close> in the pattern; when
  \<open>k\<close> fails, the next alternative for \<open>r\<close> is tried: a repetition gives up one character
  at a time (\<open>greedy\<close>, from the longest run down to the shortest allowed), an optional
  part is tried present first and absent second.
\<close>

fun greedy :: "nat \<Rightarrow> nat \<Rightarrow> (nat \<Rightarrow> 'a option) \<Rightarrow> 'a option" where
  "greedy lo 0 k = (if lo = 0 then k 0 else None)"
| "greedy lo (Suc n) k =
     (if Suc n < lo then None
      else (case k (Suc n) of Some a \<Rightarrow> Some a | None \<Rightarrow> greedy lo n k))"

fun rx_match :: "rx \<Rightarrow> string \<Rightarrow> captures \<Rightarrow> (string \<Rightarrow> captures \<Rightarrow> 'a option) \<Rightarrow> 'a option" where
  "rx_match (One p) s c k = (case s of [] \<Rightarrow> None | x # xs \<Rightarrow> if p x then k xs c else None)"
| "rx_match (Many p) s c k = greedy 0 (length (takeWhile p s)) (\<lambda>n. k (drop n s) c)"
| "rx_match (Many1 p) s c k = greedy 1 (length (takeWhile p s)) (\<lambda>n. k (drop n s) c)"
| "rx_match (Opt r) s c k = (case rx_match r s c k of Some a \<Rightarrow> Some a | None \<Rightarrow> k s c)"
| "rx_match (Seq r1 r2) s c k = rx_match r1 s c (\<lambda>s' c'. rx_match r2 s' c' k)"
| "rx_match (Group i r) s c k =
     rx_match r s c (\<lambda>s' c'. k s' (c'(i \<mapsto> take (length s - length s') s)))"

text \<open>\<open>re.match(pattern, s)\<close>: a match at the start of \<open>s\<close>; the result is its groups.\<close>

definition re_match :: "rx \<Rightarrow> string \<Rightarrow> captures option" where
  "re_match r s = rx_match r s Map.empty (\<lambda>s' c. Some c)"

definition isdigit :: "char \<Rightarrow> bool" where
  "isdigit c = (c \<in> set ''0123456789'')"

text \<open>The pattern \<^verbatim>\<open>(\d+\.?\s*)?([^\.]+)\.?\s*([^/]+)\<close>.\<close>

definition ref_pattern :: rx where
  "ref_pattern =
     Seq (Opt (Group 1 (Seq (Many1 isdigit) (Seq (Opt (One (\<lambda>c. c = CHR ''.''))) (Many isspace)))))
    (Seq (Group 2 (Many1 (\<lambda>c. c \<noteq> CHR ''.'')))
    (Seq (Opt (One (\<lambda>c. c = CHR ''.'')))
    (Seq (Many isspace)
         (Group 3 (Many1 (\<lambda>c. c \<noteq> CHR ''/''))))))"

text \<open>
  \<open>m.group(i)\<close> of a match of this pattern. Groups 2 and 3 take part in every match; a
  group that took no part is \<open>None\<close> in Python and the empty string here.
\<close>

definition match_group :: "captures \<Rightarrow> nat \<Rightarrow> string" where
  "match_group m i = (case m i of Some g \<Rightarrow> g | None \<Rightarrow> [])"

text \<open>\<open>re.search(r'(\d{4})', line)\<close>: the leftmost four digits in a row.\<close>

fun search_year :: "string \<Rightarrow> string option" where
  "search_year (a # b # c # d # rest) =
     (if isdigit a \<and> isdigit b \<and> isdigit c \<and> isdigit d then Some [a, b, c, d]
      else search_year (b # c # d # rest))"
| "search_year _ = None"

text \<open>\<open>int(s)\<close> for a string of ASCII digits.\<close>

definition int_of_digits :: "string \<Rightarrow> int" where
  "int_of_digits s = foldl (\<lambda>n c. 10 * n + (int (of_char c) - 48)) 0 s"

text \<open>\<open>s.split(c)\<close> for a one-character separator.\<close>

fun split_on :: "char \<Rightarrow> string \<Rightarrow> string list" where
  "split_on c [] = [[]]"
| "split_on c (x # xs) =
     (if x = c then [] # split_on c xs
      else (case split_on c xs of l # ls \<Rightarrow> (x # l) # ls | [] \<Rightarrow> [[x]]))"

text \<open>
  The branch that separates author and title: \<open>author_title.split('.', 1)\<close> cuts at the
  first period; without a period the title is \<open>rest\<close>.
\<close>

definition split_author_title :: "string \<Rightarrow> string \<Rightarrow> string \<times> string" where
  "split_author_title author_title rest =
     (if CHR ''.'' \<in> set author_title
      then (strip (takeWhile (\<lambda>c. c \<noteq> CHR ''.'') author_title),
            strip (tl (dropWhile (\<lambda>c. c \<noteq> CHR ''.'') author_title)))
      else (author_title, rest))"

text \<open>
  The dict a line appends to \<open>references\<close>: it has the keys \<open>authors\<close>, \<open>title\<close> and
  \<open>year\<close>.
\<close>

record ref_dict =
  rd_authors :: string
  rd_title :: string
  rd_year :: "int option"

text \<open>
  The body of the loop for one stripped line longer than 20 characters: the dict the line
  appends to \<open>references\<close>, or \<open>None\<close> when the pattern does not match and nothing is
  appended.
\<close>

definition reference_of_line :: "string \<Rightarrow> ref_dict option" where
  "reference_of_line line =
     (case re_match ref_pattern line of
        None \<Rightarrow> None
      | Some ref_match \<Rightarrow>
          (let author_title = strip (match_group ref_match 2);
               rest = (if match_group ref_match 3 \<noteq> [] then strip (match_group ref_match 3) else []);
               (authors, title) = split_author_title author_title rest;
               year = (case search_year line of
                         Some y \<Rightarrow> Some (int_of_digits y)
                       | None \<Rightarrow> None)
           in Some \<lparr>rd_authors = authors, rd_title = title, rd_year = year\<rparr>))"

text \<open>
  The fallback from the located section on: \<open>lit_text\<close> is the text the section pattern
  captured after the heading (the headings are Cyrillic, outside the strings of this
  model). The lines of \<open>lit_text\<close> are stripped, and those longer than 20 characters are
  turned into references.
\<close>

definition kept_lines :: "string \<Rightarrow> string list" where
  "kept_lines lit_text =
     filter (\<lambda>line. length line > 20) (map strip (split_on CHR 0x0A lit_text))"

definition literature_of_section :: "string \<Rightarrow> ref_dict list" where
  "literature_of_section lit_text =
     concat (map (\<lambda>line. case reference_of_line line of Some r \<Rightarrow> [r] | None \<Rightarrow> [])
                 (kept_lines lit_text))"

section \<open>The fallbacks for basic information, lecture themes and laboratory work\<close>

text \<open>
  \<open>int(s)\<close> for a run of ASCII digits, as a group \<^verbatim>\<open>(\d+)\<close> captures it on the strings of this
  model: the number, or the \<open>ValueError\<close> of the digit limit when the run has more than
  4300 digits (leading zeros count). \<open>float(s)\<close> of such a run raises nothing; a value past
  the range of the doubles is \<open>inf\<close> in Python and the number itself here, positive in
  both.
\<close>

definition int_of_str :: "string \<Rightarrow> exn + int" where
  "int_of_str s =
     (if length s > 4300 then Inl (Exn ''ValueError'' (digit_limit_message (length s)))
      else Inr (int_of_digits s))"

definition float_of_str :: "string \<Rightarrow> real" where
  "float_of_str s = real_of_int (int_of_digits s)"

text \<open>
  The fallbacks search the text with regular expressions whose keywords are Cyrillic
  (\<open>re.search\<close>, \<open>re.finditer\<close>) and test it for words. The searches belong to Python's
  \<open>re\<close>; what they find in a text is the input of the models below, and what the code
  does with it is modelled from the source. A captured group is a string of this model:
  digits, and text over U+0000..U+00FF.

  For the basic information: group 1 of the first of the three title patterns that
  matches, if one does; whether \<open>text.lower()\<close> holds one of the words of the master's
  degree, or one of those of the doctorate; group 1 of the first profession pattern that
  matches; and group 1, a run of digits, of the first hours pattern that matches.
\<close>

record basic_info_found =
  title_group :: "string option"
  master_word :: bool
  phd_word :: bool
  profession_group :: "string option"
  hours_group :: "string option"

text \<open>The dict \<open>_extract_basic_info_fallback\<close> returns: it has these four keys.\<close>

record basic_info_dict =
  bi_subject_title :: string
  bi_academic_degree :: string
  bi_profession :: string
  bi_total_hours :: int

text \<open>
  \<open>_extract_basic_info_fallback\<close>. The title, the degree and the profession are settled
  first; \<open>int(match.group(1))\<close> of the hours is the last statement that can raise, and no
  handler stands around it.
\<close>

definition extract_basic_info_fallback :: "basic_info_found \<Rightarrow> exn + basic_info_dict" where
  "extract_basic_info_fallback found =
     (let subject_title = (case title_group found of Some g \<Rightarrow> strip g | None \<Rightarrow> []);
          academic_degree = (if master_word found then ''master''
                             else if phd_word found then ''phd'' else ''bachelor'');
          profession = (case profession_group found of Some g \<Rightarrow> strip g | None \<Rightarrow> [])
      in case hours_group found of
           None \<Rightarrow>
             Inr \<lparr>bi_subject_title = subject_title, bi_academic_degree = academic_degree,
                  bi_profession = profession, bi_total_hours = 0\<rparr>
         | Some g \<Rightarrow>
             (case int_of_str g of
                Inl e \<Rightarrow> Inl e
              | Inr n \<Rightarrow>
                  Inr \<lparr>bi_subject_title = subject_title, bi_academic_degree = academic_degree,
                       bi_profession = profession, bi_total_hours = n\<rparr>))"

text \<open>
  For the lecture themes: the matches of the three patterns, those of the first pattern
  before those of the second and the third, each with its group 1 (the digits of the
  theme's number), its group 2 and, for the third pattern, its group 3 (the digits of the
  hours). Every pattern has two groups or more, so the test on \<open>len(match.groups())\<close>
  holds for every match.
\<close>

record theme_found =
  number_group :: string
  name_group :: string
  count_group :: "string option"

text \<open>The dicts of the themes, the laboratory work and the references, as the fallbacks build them.\<close>

record theme_dict =
  td_title :: string
  td_order :: int
  td_hours :: real


text \<open>
  \<open>_extract_lecture_themes_fallback\<close>: \<open>int(match.group(1))\<close> stands outside the \<open>try\<close>
  that guards \<open>float(match.group(3))\<close>, so its \<open>ValueError\<close> ends the loops and no list is
  returned. The local variable \<open>order\<close> carries a prime: the name is a field of
  \<open>LectureTheme\<close> already.
\<close>

fun extract_lecture_themes_fallback :: "theme_found list \<Rightarrow> exn + theme_dict list" where
  "extract_lecture_themes_fallback [] = Inr []"
| "extract_lecture_themes_fallback (match # matches) =
     (case int_of_str (number_group match) of
        Inl e \<Rightarrow> Inl e
      | Inr order' \<Rightarrow>
          (let title = strip (name_group match);
               hours = (case count_group match of Some g \<Rightarrow> float_of_str g | None \<Rightarrow> 2.0)
           in case extract_lecture_themes_fallback matches of
                Inl e \<Rightarrow> Inl e
              | Inr themes \<Rightarrow> Inr (\<lparr>td_title = title, td_order = order', td_hours = hours\<rparr> # themes)))"



section \<open>The field extractors: \<open>_extract_basic_info\<close> and its three siblings\<close>

text \<open>
  Each of the four coroutines has the same shape. With a model manager it first renders
  its prompt template with \<open>str.format\<close>. Every template holds the braces of its JSON
  example unescaped, so \<open>format\<close> reads the first of them as a replacement field and raises
  \<open>KeyError\<close> for its name, a line break, four blanks and the quoted first key of the
  example: the completion service is never called, and the response parser neither.
  (When \<open>get_llm_model\<close> raises before that, the same handler runs.) Without a model
  manager it runs the fallback. The handler \<open>except Exception\<close> runs the fallback, again
  and on the same text when it was the fallback that raised: what the fallback raises
  then leaves the coroutine.
\<close>

definition format_error :: "string \<Rightarrow> exn" where
  "format_error key =
     Exn ''KeyError'' ([CHR 0x27, CHR 0x5C] @ ''n    '' @ [CHR 0x22] @ key @ [CHR 0x22, CHR 0x27])"

definition extract_basic_info :: "bool \<Rightarrow> basic_info_found \<Rightarrow> exn + basic_info_dict" where
  "extract_basic_info model_manager found =
     (case (if model_manager then Inl (format_error ''subject_title'')
            else extract_basic_info_fallback found) of
        Inr result \<Rightarrow> Inr result
      | Inl e \<Rightarrow> extract_basic_info_fallback found)"

definition extract_lecture_themes :: "bool \<Rightarrow> theme_found list \<Rightarrow> exn + theme_dict list" where
  "extract_lecture_themes model_manager found =
     (case (if model_manager then Inl (format_error ''lecture_themes'')
            else extract_lecture_themes_fallback found) of
        Inr result \<Rightarrow> Inr result
      | Inl e \<Rightarrow> extract_lecture_themes_fallback found)"



section \<open>The orchestrator: \<open>RPDDataExtractor.extract_rpd_data\<close>\<close>



text \<open>What the regular expressions of the four fallbacks find in the raw text.\<close>

record document_found =
  basic_found :: basic_info_found
  themes_found :: "theme_found list"
  labs_found :: "string list"
  section_found :: "string option"






text \<open>
  A name for the statements about the orchestrator: no run of digits that the fallbacks
  hand to \<open>int\<close>, the total hours or the number of a theme, has more than 4300 digits.
\<close>

definition within_digit_limit :: "document_found \<Rightarrow> bool" where
  "within_digit_limit found \<longleftrightarrow>
     (case hours_group (basic_found found) of Some g \<Rightarrow> length g \<le> 4300 | None \<Rightarrow> True) \<and>
     list_all (\<lambda>m. length (number_group m) \<le> 4300) (themes_found found)"

text \<open>
  A notion for the proofs about the matcher: what a successful match of a pattern has
  consumed and captured.
\<close>

fun rx_rel :: "rx \<Rightarrow> string \<Rightarrow> captures \<Rightarrow> string \<Rightarrow> captures \<Rightarrow> bool" where
  "rx_rel (One p) s c s' c' \<longleftrightarrow> (\<exists>x. s = x # s' \<and> p x) \<and> c' = c"
| "rx_rel (Many p) s c s' c' \<longleftrightarrow>
     (\<exists>n. n \<le> length (takeWhile p s) \<and> s' = drop n s) \<and> c' = c"
| "rx_rel (Many1 p) s c s' c' \<longleftrightarrow>
     (\<exists>n. 1 \<le> n \<and> n \<le> length (takeWhile p s) \<and> s' = drop n s) \<and> c' = c"
| "rx_rel (Opt r) s c s' c' \<longleftrightarrow> rx_rel r s c s' c' \<or> (s' = s \<and> c' = c)"
| "rx_rel (Seq r1 r2) s c s' c' \<longleftrightarrow> (\<exists>s1 c1. rx_rel r1 s c s1 c1 \<and> rx_rel r2 s1 c1 s' c')"
| "rx_rel (Group i r) s c s' c' \<longleftrightarrow>
     (\<exists>c1. rx_rel r s c s' c1 \<and> c' = c1(i \<mapsto> take (length s - length s') s))"
section \<open>Properties of the validator\<close>

lemma fst_validate_themes:
  "fst (validate_themes i ts es) = map (\<lambda>t. if hours t \<le> 0 then t\<lparr>hours := 2.0\<rparr> else t) ts"
  by (induction ts arbitrary: i es) (simp_all add: Let_def split_beta)

text \<open>
  The loop only appends to \<open>errors\<close>, and what it appends are empty-title warnings and,
  where a theme has hours \<open>\<le> 0\<close>, hours warnings.
\<close>

lemma snd_validate_themes:
  "\<exists>ws. snd (validate_themes i ts es) = es @ ws \<and>
     set ws \<subseteq> range empty_title_warning \<union>
       {w. w \<in> range hours_warning \<and> (\<exists>t \<in> set ts. hours t \<le> 0)}"
proof (induction ts arbitrary: i es)
  case Nil
  then show ?case by simp
next
  case (Cons t ts)
  define pre where "pre = (if strip (title t) = [] then [empty_title_warning i] else [])
     @ (if hours t \<le> 0 then [hours_warning i] else [])"
  obtain ws where ws: "snd (validate_themes (Suc i) ts (es @ pre)) = (es @ pre) @ ws"
    and sub: "set ws \<subseteq> range empty_title_warning \<union>
       {w. w \<in> range hours_warning \<and> (\<exists>t \<in> set ts. hours t \<le> 0)}"
    using Cons.IH [of "Suc i" "es @ pre"] by blast
  have "snd (validate_themes i (t # ts) es) = es @ (pre @ ws)"
    using ws by (auto simp: Let_def split_beta pre_def split: if_splits)
  moreover have "set (pre @ ws) \<subseteq> range empty_title_warning \<union>
      {w. w \<in> range hours_warning \<and> (\<exists>t \<in> set (t # ts). hours t \<le> 0)}"
    using sub by (auto simp: pre_def)
  ultimately show ?case by blast
qed

lemma snd_validate_themes_append:
  "\<exists>ws. snd (validate_themes i ts es) = es @ ws"
  using snd_validate_themes [of i ts es] by blast

lemma validate_themes_positive:
  "\<forall>t \<in> set ts. 0 < hours t \<Longrightarrow>
     \<exists>ws. snd (validate_themes i ts es) = es @ ws \<and> set ws \<subseteq> range empty_title_warning"
  using snd_validate_themes [of i ts es] by fastforce

lemma fix_hours_positive:
  "\<forall>t \<in> set ts. 0 < hours t \<Longrightarrow>
     map (\<lambda>t. if hours t \<le> 0 then t\<lparr>hours := 2.0\<rparr> else t) ts = ts"
  by (induction ts) auto

lemma last_empty_title_warning: "last (empty_title_warning i) = CHR ''e''"
  by (simp add: empty_title_warning_def)

lemma last_hours_warning: "last (hours_warning i) = CHR ''0''"
  by (simp add: hours_warning_def)

lemma last_degree_warning: "last degree_warning = CHR 0x27"
  by (simp add: degree_warning_def)

text \<open>The validator, field by field.\<close>

lemma validate_rpd_data_unfold:
  "validate_rpd_data r =
     r\<lparr>academic_degree :=
          (if academic_degree r \<in> set valid_degrees then academic_degree r else ''bachelor''),
       lecture_themes := fst (validate_themes 0 (lecture_themes r) (field_warnings r)),
       extraction_confidence :=
          Some (let n = length (snd (validate_themes 0 (lecture_themes r) (field_warnings r)))
                in if n = 0 then 1 else max 0.1 (1 - real n * 0.1)),
       extraction_errors :=
          extraction_errors r @ snd (validate_themes 0 (lecture_themes r) (field_warnings r))\<rparr>"
  by (simp add: validate_rpd_data_def field_warnings_def Let_def split_beta)

lemma hours_fixed_positive:
  "\<forall>t \<in> set (lecture_themes (validate_rpd_data r)). 0 < hours t"
  by (auto simp: validate_rpd_data_unfold fst_validate_themes)

lemma field_warnings_valid:
  "academic_degree r \<in> set valid_degrees \<Longrightarrow>
     set (field_warnings r) \<subseteq> {''Subject title is required'', ''Profession/direction is required'',
        ''Total hours must be positive''}"
  by (auto simp: field_warnings_def)

text \<open>
  C3. Whatever the extracted degree was, the degree of a validated record is one of
  bachelor, master and phd; a degree outside that list has become bachelor, and the
  warnings this validation appended to \<open>extraction_errors\<close> contain the degree warning.
\<close>

theorem validate_degree_valid:
  "academic_degree (validate_rpd_data r) \<in> set valid_degrees \<and>
   (academic_degree r \<notin> set valid_degrees \<longrightarrow>
      academic_degree (validate_rpd_data r) = ''bachelor'' \<and>
      degree_warning \<in> set (drop (length (extraction_errors r))
                                (extraction_errors (validate_rpd_data r))))"
proof -
  obtain ws where ws:
    "snd (validate_themes 0 (lecture_themes r) (field_warnings r)) = field_warnings r @ ws"
    using snd_validate_themes_append by blast
  have a: "academic_degree (validate_rpd_data r) \<in> set valid_degrees"
    by (simp add: validate_rpd_data_unfold) (simp add: valid_degrees_def)
  have b: "academic_degree r \<notin> set valid_degrees \<Longrightarrow>
      academic_degree (validate_rpd_data r) = ''bachelor''"
    by (simp add: validate_rpd_data_unfold)
  have c: "academic_degree r \<notin> set valid_degrees \<Longrightarrow>
      degree_warning \<in> set (drop (length (extraction_errors r))
                                (extraction_errors (validate_rpd_data r)))"
    by (simp add: validate_rpd_data_unfold ws) (simp add: field_warnings_def)
  show ?thesis using a b c by blast
qed

theorem validate_degree_valid_witness:
  "academic_degree
     \<lparr>subject_title = ''Test'', academic_degree = ''invalid'', profession = ''Test Profession'',
      total_hours = 100, department = None, faculty = None, year = None, semester = None,
      lecture_themes = [], lab_examples = [], literature_references = [],
      extraction_confidence = None, extraction_errors = [''earlier'']\<rparr> \<notin> set valid_degrees \<and>
   academic_degree (validate_rpd_data
     \<lparr>subject_title = ''Test'', academic_degree = ''invalid'', profession = ''Test Profession'',
      total_hours = 100, department = None, faculty = None, year = None, semester = None,
      lecture_themes = [], lab_examples = [], literature_references = [],
      extraction_confidence = None, extraction_errors = [''earlier'']\<rparr>) = ''bachelor'' \<and>
   degree_warning \<in> set (drop 1 (extraction_errors (validate_rpd_data
     \<lparr>subject_title = ''Test'', academic_degree = ''invalid'', profession = ''Test Profession'',
      total_hours = 100, department = None, faculty = None, year = None, semester = None,
      lecture_themes = [], lab_examples = [], literature_references = [],
      extraction_confidence = None, extraction_errors = [''earlier'']\<rparr>)))"
  using validate_degree_valid [of
     "\<lparr>subject_title = ''Test'', academic_degree = ''invalid'', profession = ''Test Profession'',
      total_hours = 100, department = None, faculty = None, year = None, semester = None,
      lecture_themes = [], lab_examples = [], literature_references = [],
      extraction_confidence = None, extraction_errors = [''earlier'']\<rparr>"]
  by (simp add: valid_degrees_def)

text \<open>
  C4. One validation appends its warnings \<open>ws\<close> to \<open>extraction_errors\<close>, and the
  confidence it stores is \<open>max(0.1, 1.0 - 0.1 * len(ws))\<close>: the count is of the warnings of
  this pass, whatever \<open>extraction_errors\<close> held before.
\<close>

theorem validate_confidence_counts_own_warnings:
  "\<exists>ws. extraction_errors (validate_rpd_data r) = extraction_errors r @ ws \<and>
        extraction_confidence (validate_rpd_data r) =
          Some (max 0.1 (1.0 - 0.1 * real (length ws)))"
proof -
  let ?ws = "snd (validate_themes 0 (lecture_themes r) (field_warnings r))"
  have "extraction_errors (validate_rpd_data r) = extraction_errors r @ ?ws"
    by (simp add: validate_rpd_data_unfold)
  moreover have "extraction_confidence (validate_rpd_data r) =
      Some (max 0.1 (1.0 - 0.1 * real (length ?ws)))"
    by (simp add: validate_rpd_data_unfold Let_def)
  ultimately show ?thesis by blast
qed

text \<open>
  C5. Validating a validated record again leaves the degree and every lecture theme
  (so every corrected hours value) as they are, and the warnings the second pass appends
  contain neither the degree warning nor an hours warning.
\<close>

theorem validate_idempotent:
  "academic_degree (validate_rpd_data (validate_rpd_data r)) =
     academic_degree (validate_rpd_data r) \<and>
   lecture_themes (validate_rpd_data (validate_rpd_data r)) =
     lecture_themes (validate_rpd_data r) \<and>
   (\<exists>ws. extraction_errors (validate_rpd_data (validate_rpd_data r)) =
            extraction_errors (validate_rpd_data r) @ ws \<and>
          degree_warning \<notin> set ws \<and> (\<forall>i. hours_warning i \<notin> set ws))"
proof -
  let ?r1 = "validate_rpd_data r"
  have deg: "academic_degree ?r1 \<in> set valid_degrees"
    by (simp add: validate_rpd_data_unfold) (simp add: valid_degrees_def)
  have pos: "\<forall>t \<in> set (lecture_themes ?r1). 0 < hours t"
    by (rule hours_fixed_positive)
  have a: "academic_degree (validate_rpd_data ?r1) = academic_degree ?r1"
    using deg by (simp add: validate_rpd_data_unfold [of ?r1])
  have b: "lecture_themes (validate_rpd_data ?r1) = lecture_themes ?r1"
    by (simp add: validate_rpd_data_unfold [of ?r1] fst_validate_themes
        fix_hours_positive [OF pos])
  obtain ws where ws:
    "snd (validate_themes 0 (lecture_themes ?r1) (field_warnings ?r1)) = field_warnings ?r1 @ ws"
    and sub: "set ws \<subseteq> range empty_title_warning"
    using validate_themes_positive [OF pos] by blast
  let ?ws = "field_warnings ?r1 @ ws"
  have c: "extraction_errors (validate_rpd_data ?r1) = extraction_errors ?r1 @ ?ws"
    by (simp add: validate_rpd_data_unfold [of ?r1] ws)
  have lasts: "\<forall>w \<in> set ?ws. last w = CHR ''d'' \<or> last w = CHR ''e''"
    using field_warnings_valid [OF deg] sub last_empty_title_warning by auto
  have d: "degree_warning \<notin> set ?ws"
    using lasts last_degree_warning by fastforce
  have e: "\<forall>i. hours_warning i \<notin> set ?ws"
    using lasts last_hours_warning by fastforce
  show ?thesis using a b c d e by blast
qed

text \<open>
  C9. The frame of the validator: the nine fields it never assigns are unchanged; the
  themes keep their number, titles, orders and descriptions, and the hours of a theme
  change (to 2.0) only where they were \<open>\<le> 0\<close>; the degree changes (to bachelor) only
  where it was outside the valid list; \<open>extraction_errors\<close> is extended at its end.
  The remaining field, \<open>extraction_confidence\<close>, is the one the validator sets.
\<close>

theorem validate_frame:
  "subject_title (validate_rpd_data r) = subject_title r \<and>
   profession (validate_rpd_data r) = profession r \<and>
   total_hours (validate_rpd_data r) = total_hours r \<and>
   department (validate_rpd_data r) = department r \<and>
   faculty (validate_rpd_data r) = faculty r \<and>
   year (validate_rpd_data r) = year r \<and>
   semester (validate_rpd_data r) = semester r \<and>
   lab_examples (validate_rpd_data r) = lab_examples r \<and>
   literature_references (validate_rpd_data r) = literature_references r \<and>
   map title (lecture_themes (validate_rpd_data r)) = map title (lecture_themes r) \<and>
   map order (lecture_themes (validate_rpd_data r)) = map order (lecture_themes r) \<and>
   map description (lecture_themes (validate_rpd_data r)) = map description (lecture_themes r) \<and>
   map hours (lecture_themes (validate_rpd_data r)) =
     map (\<lambda>t. if hours t \<le> 0 then 2.0 else hours t) (lecture_themes r) \<and>
   academic_degree (validate_rpd_data r) =
     (if academic_degree r \<in> set valid_degrees then academic_degree r else ''bachelor'') \<and>
   (\<exists>ws. extraction_errors (validate_rpd_data r) = extraction_errors r @ ws)"
  by (simp add: validate_rpd_data_unfold fst_validate_themes comp_def)

section \<open>Properties of the completeness scorer\<close>

text \<open>
  C8. A record with a subject title, a profession, positive total hours, a valid degree,
  five lecture themes, five literature references and three lab examples scores 1.0.
\<close>

theorem completeness_score_full:
  assumes "subject_title r \<noteq> []" and "profession r \<noteq> []" and "total_hours r > 0"
    and "academic_degree r \<in> {''bachelor'', ''master'', ''phd''}"
    and "length (lecture_themes r) = 5" and "length (literature_references r) = 5"
    and "length (lab_examples r) = 3"
  shows "calculate_completeness_score r = 1.0"
proof -
  have "lecture_themes r \<noteq> []" "literature_references r \<noteq> []" "lab_examples r \<noteq> []"
    using assms(5-7) by auto
  then show ?thesis
    using assms by (simp add: calculate_completeness_score_def)
qed

theorem completeness_score_full_witness:
  "calculate_completeness_score
     \<lparr>subject_title = ''Python'', academic_degree = ''master'', profession = ''Software'',
      total_hours = 144, department = None, faculty = None, year = None, semester = None,
      lecture_themes = replicate 5 \<lparr>title = ''T'', order = 1, hours = 2.0, description = None\<rparr>,
      lab_examples = replicate 3 \<lparr>lab_title = ''L'', lab_description = ''D'',
        theme_relation = None, estimated_hours = None\<rparr>,
      literature_references = replicate 5 \<lparr>authors = ''A'', ref_title = ''B'', ref_year = None,
        pages = None, publisher = None, isbn = None, kpfu_available = False,
        kpfu_book_id = None\<rparr>,
      extraction_confidence = Some 1.0, extraction_errors = []\<rparr> = 1.0"
  using completeness_score_full [of
     "\<lparr>subject_title = ''Python'', academic_degree = ''master'', profession = ''Software'',
      total_hours = 144, department = None, faculty = None, year = None, semester = None,
      lecture_themes = replicate 5 \<lparr>title = ''T'', order = 1, hours = 2.0, description = None\<rparr>,
      lab_examples = replicate 3 \<lparr>lab_title = ''L'', lab_description = ''D'',
        theme_relation = None, estimated_hours = None\<rparr>,
      literature_references = replicate 5 \<lparr>authors = ''A'', ref_title = ''B'', ref_year = None,
        pages = None, publisher = None, isbn = None, kpfu_available = False,
        kpfu_book_id = None\<rparr>,
      extraction_confidence = Some 1.0, extraction_errors = []\<rparr>"]
  by simp

section \<open>Properties of the response parser\<close>

lemma not_isspace_braces [simp]: "\<not> isspace CHR ''{''" "\<not> isspace CHR ''}''"
  by (simp_all add: isspace_def)

lemma dropWhile_append_stop:
  "\<not> P y \<Longrightarrow> dropWhile P (xs @ y # ys) = dropWhile P xs @ y # ys"
  by (induction xs) auto

lemma takeWhile_append_stop:
  "\<forall>x \<in> set xs. P x \<Longrightarrow> \<not> P y \<Longrightarrow> takeWhile P (xs @ y # ys) = xs"
  by (induction xs) auto

lemma set_strip: "set (strip s) \<subseteq> set s"
proof
  fix x assume "x \<in> set (strip s)"
  then have "x \<in> set (dropWhile isspace (rev (dropWhile isspace s)))"
    by (simp add: strip_def)
  then have "x \<in> set (rev (dropWhile isspace s))" by (rule set_dropWhileD)
  then have "x \<in> set (dropWhile isspace s)" by simp
  then show "x \<in> set s" by (rule set_dropWhileD)
qed

lemma strip_around:
  assumes "\<not> isspace a" and "\<not> isspace b"
  shows "strip (p @ a # body @ b # q) =
           dropWhile isspace p @ a # body @ b # rev (dropWhile isspace (rev q))"
proof -
  have "dropWhile isspace (p @ a # body @ b # q) = dropWhile isspace p @ a # body @ b # q"
    using assms(1) by (rule dropWhile_append_stop)
  moreover have "rev (dropWhile isspace p @ a # body @ b # q) = rev q @ b # (rev body @ a # rev (dropWhile isspace p))"
    by simp
  ultimately show ?thesis
    using dropWhile_append_stop [of isspace b "rev q" "rev body @ a # rev (dropWhile isspace p)"] assms(2)
    by (simp add: strip_def)
qed

lemma find_char_first:
  "c \<notin> set xs \<Longrightarrow> find_char c (xs @ c # ys) = int (length xs)"
proof -
  assume "c \<notin> set xs"
  then have "takeWhile (\<lambda>x. x \<noteq> c) (xs @ c # ys) = xs"
    by (intro takeWhile_append_stop) auto
  then show ?thesis by (simp add: find_char_def)
qed

lemma rfind_char_last:
  "c \<notin> set ys \<Longrightarrow> rfind_char c (xs @ c # ys) = int (length xs)"
proof -
  assume "c \<notin> set ys"
  then have "takeWhile (\<lambda>x. x \<noteq> c) (rev ys @ c # rev xs) = rev ys"
    by (intro takeWhile_append_stop) auto
  then show ?thesis by (simp add: rfind_char_def)
qed

lemma slice_middle:
  "slice (xs @ ys @ zs) (int (length xs)) (int (length xs) + int (length ys)) = ys"
  by (simp add: slice_def)

lemma parse_json_response_embedded:
  assumes p: "CHR ''{'' \<notin> set p" and q: "CHR ''}'' \<notin> set q"
  shows "parse_json_response loads (p @ CHR ''{'' # body @ CHR ''}'' # q) =
           (case loads (CHR ''{'' # body @ [CHR ''}'']) of
              Inr v \<Rightarrow> Inr (Some v)
            | Inl e \<Rightarrow> if exn_class e = ''JSONDecodeError'' then Inr None else Inl e)"
proof -
  let ?p = "dropWhile isspace p" and ?q = "rev (dropWhile isspace (rev q))"
  let ?e = "CHR ''{'' # body @ [CHR ''}'']"
  let ?s = "?p @ CHR ''{'' # body @ CHR ''}'' # ?q"
  have s: "strip (p @ CHR ''{'' # body @ CHR ''}'' # q) = ?s"
    by (rule strip_around) simp_all
  have p': "CHR ''{'' \<notin> set ?p" using p set_dropWhileD by fastforce
  have q': "CHR ''}'' \<notin> set ?q" using q set_dropWhileD by fastforce
  have f: "find_char CHR ''{'' ?s = int (length ?p)"
    using p' by (rule find_char_first)
  have r: "rfind_char CHR ''}'' ?s = int (length ?p) + int (length body) + 1"
    using rfind_char_last [OF q', of "?p @ CHR ''{'' # body"] by simp
  have sl: "slice ?s (find_char CHR ''{'' ?s) (rfind_char CHR ''}'' ?s + 1) = ?e"
    unfolding f r using slice_middle [of ?p ?e ?q] by (simp add: algebra_simps)
  have ne: "find_char CHR ''{'' ?s \<noteq> - 1" "rfind_char CHR ''}'' ?s \<noteq> - 1"
    unfolding f r by linarith+
  show ?thesis
    unfolding parse_json_response_def Let_def s sl using ne by (simp only: simp_thms if_True)
qed

text \<open>
  C6. Let \<open>d\<close> be JSON-safe, that is, decoding its encoding gives \<open>d\<close> back, and let the
  encoding of \<open>d\<close>, a dict, be an object literal: it opens with a brace and closes with
  one. Then parsing the encoding with prose before and after it that has no brace, as in
  \<open>"some prose " + json_encode(d) + " more prose"\<close>, returns \<open>d\<close>. The encoder and the
  decoder are the standard library's, and parameters here.
\<close>

theorem parse_json_response_roundtrip:
  assumes "dumps d = CHR ''{'' # body @ [CHR ''}'']"
    and "loads (dumps d) = Inr d"
    and "CHR ''{'' \<notin> set prose1" and "CHR ''}'' \<notin> set prose1"
    and "CHR ''{'' \<notin> set prose2" and "CHR ''}'' \<notin> set prose2"
  shows "parse_json_response loads (prose1 @ dumps d @ prose2) = Inr (Some d)"
  using parse_json_response_embedded [of prose1 prose2 loads body] assms by simp

theorem parse_json_response_roundtrip_witness:
  \<open>parse_json_response
     (\<lambda>s. if s = ''{"subject_title": "X", "total_hours": 50}''
          then Inr (PDict [(''subject_title'', PStr ''X''), (''total_hours'', PInt 50)])
          else Inl (Exn ''JSONDecodeError'' ''Expecting value: line 1 column 1 (char 0)''))
     (''some prose '' @ ''{"subject_title": "X", "total_hours": 50}'' @ '' more prose'') =
   Inr (Some (PDict [(''subject_title'', PStr ''X''), (''total_hours'', PInt 50)]))\<close>
  using parse_json_response_roundtrip [of
      \<open>\<lambda>v. ''{"subject_title": "X", "total_hours": 50}''\<close>
      \<open>PDict [(''subject_title'', PStr ''X''), (''total_hours'', PInt 50)]\<close>
      \<open>''"subject_title": "X", "total_hours": 50''\<close>
      \<open>\<lambda>s. if s = ''{"subject_title": "X", "total_hours": 50}''
          then Inr (PDict [(''subject_title'', PStr ''X''), (''total_hours'', PInt 50)])
          else Inl (Exn ''JSONDecodeError'' ''Expecting value: line 1 column 1 (char 0)'')\<close>
      \<open>''some prose ''\<close> \<open>'' more prose''\<close>]
  by simp
















section \<open>Properties of the field extractors and the orchestrator\<close>



text \<open>
  A field extractor returns what its fallback returns and raises what its fallback
  raises, with a model manager and without one.
\<close>

lemma extract_basic_info_fallback_only:
  "extract_basic_info model_manager found = extract_basic_info_fallback found"
  by (cases "extract_basic_info_fallback found") (simp_all add: extract_basic_info_def)

lemma extract_lecture_themes_fallback_only:
  "extract_lecture_themes model_manager found = extract_lecture_themes_fallback found"
  by (cases "extract_lecture_themes_fallback found") (simp_all add: extract_lecture_themes_def)



text \<open>
  The fallbacks raise on a run of more than 4300 digits and on nothing else: the one for
  the basic information on such a run for the hours, the one for the themes on the first
  such number of a theme.
\<close>

lemma extract_basic_info_fallback_returns:
  "(\<exists>b. extract_basic_info_fallback found = Inr b) \<longleftrightarrow>
     (case hours_group found of Some g \<Rightarrow> length g \<le> 4300 | None \<Rightarrow> True)"
  by (auto simp: extract_basic_info_fallback_def int_of_str_def Let_def split: option.splits)

lemma extract_lecture_themes_fallback_returns:
  "(\<exists>ts. extract_lecture_themes_fallback ms = Inr ts) \<longleftrightarrow>
     list_all (\<lambda>m. length (number_group m) \<le> 4300) ms"
  by (induction ms) (auto simp: int_of_str_def Let_def split: sum.splits)

lemma within_digit_limit_returns:
  "within_digit_limit found \<longleftrightarrow>
     (\<exists>b ts. extract_basic_info model_manager (basic_found found) = Inr b \<and>
             extract_lecture_themes model_manager (themes_found found) = Inr ts)"
  unfolding within_digit_limit_def extract_basic_info_fallback_only
    extract_lecture_themes_fallback_only
  using extract_basic_info_fallback_returns [of "basic_found found"]
    extract_lecture_themes_fallback_returns [of "themes_found found"]
  by blast







section \<open>Properties of the literature fallback\<close>

lemma greedy_SomeD:
  "greedy lo n k = Some a \<Longrightarrow> \<exists>m. lo \<le> m \<and> m \<le> n \<and> k m = Some a"
proof (induction n)
  case 0
  then show ?case by (auto split: if_splits)
next
  case (Suc n)
  show ?case
  proof (cases "k (Suc n)")
    case None
    then have "greedy lo n k = Some a"
      using Suc.prems by (simp split: if_splits)
    then obtain m where "lo \<le> m" "m \<le> n" "k m = Some a"
      using Suc.IH by blast
    then show ?thesis by (intro exI [of _ m]) simp
  next
    case (Some b)
    then have "\<not> Suc n < lo" and "b = a"
      using Suc.prems by (simp_all split: if_splits)
    then show ?thesis using Some by (intro exI [of _ "Suc n"]) simp
  qed
qed

lemma rx_match_SomeD:
  "rx_match r s c k = Some a \<Longrightarrow> \<exists>s' c'. rx_rel r s c s' c' \<and> k s' c' = Some a"
proof (induction r arbitrary: s c k)
  case (One p)
  then show ?case by (auto split: list.splits if_splits)
next
  case (Many p)
  then have "greedy 0 (length (takeWhile p s)) (\<lambda>n. k (drop n s) c) = Some a" by simp
  then obtain m where "m \<le> length (takeWhile p s)" "k (drop m s) c = Some a"
    using greedy_SomeD [of 0 "length (takeWhile p s)" "\<lambda>n. k (drop n s) c" a] by blast
  then show ?case by (intro exI [of _ "drop m s"] exI [of _ c]) auto
next
  case (Many1 p)
  then have "greedy 1 (length (takeWhile p s)) (\<lambda>n. k (drop n s) c) = Some a" by simp
  then obtain m where "1 \<le> m" "m \<le> length (takeWhile p s)" "k (drop m s) c = Some a"
    using greedy_SomeD [of 1 "length (takeWhile p s)" "\<lambda>n. k (drop n s) c" a] by blast
  then show ?case by (intro exI [of _ "drop m s"] exI [of _ c]) auto
next
  case (Opt r)
  show ?case
  proof (cases "rx_match r s c k")
    case None
    then have "k s c = Some a" using Opt.prems by simp
    then show ?thesis by (intro exI [of _ s] exI [of _ c]) simp
  next
    case (Some b)
    then have "rx_match r s c k = Some a" using Opt.prems by simp
    then obtain s' c' where "rx_rel r s c s' c'" "k s' c' = Some a"
      using Opt.IH by blast
    then show ?thesis by (intro exI [of _ s'] exI [of _ c']) simp
  qed
next
  case (Seq r1 r2)
  have "rx_match r1 s c (\<lambda>s' c'. rx_match r2 s' c' k) = Some a"
    using Seq.prems by simp
  then obtain s1 c1 where 1: "rx_rel r1 s c s1 c1"
    and "rx_match r2 s1 c1 k = Some a"
    using Seq.IH(1) [of s c "\<lambda>s' c'. rx_match r2 s' c' k"] by blast
  then obtain s' c' where "rx_rel r2 s1 c1 s' c'" and "k s' c' = Some a"
    using Seq.IH(2) by blast
  with 1 show ?case by (intro exI [of _ s'] exI [of _ c']) auto
next
  case (Group i r)
  have "rx_match r s c (\<lambda>s' c'. k s' (c'(i \<mapsto> take (length s - length s') s))) = Some a"
    using Group.prems by simp
  then obtain s' c1 where "rx_rel r s c s' c1"
    and "k s' (c1(i \<mapsto> take (length s - length s') s)) = Some a"
    using Group.IH [of s c "\<lambda>s' c'. k s' (c'(i \<mapsto> take (length s - length s') s))"] by blast
  then show ?case
    unfolding rx_rel.simps by blast
qed

lemma take_within_takeWhile:
  assumes "n \<le> length (takeWhile p s)"
  shows "s = take n s @ drop n s \<and> (\<forall>x \<in> set (take n s). p x) \<and>
         take (length s - length (drop n s)) s = take n s"
proof -
  have "take n (takeWhile p s @ dropWhile p s) = take n (takeWhile p s)"
    using assms by (simp del: takeWhile_dropWhile_id)
  then have "take n s = take n (takeWhile p s)" by simp
  then have "set (take n s) \<subseteq> set (takeWhile p s)" by (simp add: set_take_subset)
  then have "\<forall>x \<in> set (take n s). p x" by (auto dest: set_takeWhileD)
  moreover have "n \<le> length s"
    using assms length_takeWhile_le [of p s] by linarith
  ultimately show ?thesis by simp
qed

lemma rx_rel_Many:
  "rx_rel (Many p) s c s' c' \<Longrightarrow> \<exists>g. (\<forall>x \<in> set g. p x) \<and> s = g @ s' \<and> c' = c"
proof -
  assume "rx_rel (Many p) s c s' c'"
  then obtain n where n: "n \<le> length (takeWhile p s)" "s' = drop n s" and c: "c' = c"
    by auto
  show ?thesis
    using take_within_takeWhile [OF n(1)] n(2) c by (intro exI [of _ "take n s"]) simp
qed

lemma rx_rel_Many1:
  "rx_rel (Many1 p) s c s' c' \<Longrightarrow>
     \<exists>g. g \<noteq> [] \<and> (\<forall>x \<in> set g. p x) \<and> s = g @ s' \<and> c' = c \<and>
         take (length s - length s') s = g"
proof -
  assume "rx_rel (Many1 p) s c s' c'"
  then obtain n where n: "1 \<le> n" "n \<le> length (takeWhile p s)" "s' = drop n s" and c: "c' = c"
    by auto
  have "n \<le> length s" using n(2) length_takeWhile_le [of p s] by linarith
  then have "take n s \<noteq> []" using n(1) by (cases s) auto
  then show ?thesis
    using take_within_takeWhile [OF n(2)] n(3) c by (intro exI [of _ "take n s"]) simp
qed

lemma rx_rel_Group_Many1:
  "rx_rel (Group i (Many1 p)) s c s' c' \<Longrightarrow>
     \<exists>g. g \<noteq> [] \<and> (\<forall>x \<in> set g. p x) \<and> s = g @ s' \<and> c' = c(i \<mapsto> g)"
proof -
  assume "rx_rel (Group i (Many1 p)) s c s' c'"
  then obtain c1 where 1: "rx_rel (Many1 p) s c s' c1"
    and 2: "c' = c1(i \<mapsto> take (length s - length s') s)"
    by auto
  obtain g where "g \<noteq> []" "\<forall>x \<in> set g. p x" "s = g @ s'" "c1 = c"
    "take (length s - length s') s = g"
    using rx_rel_Many1 [OF 1] by blast
  then show ?thesis using 2 by (intro exI [of _ g]) simp
qed

lemma rx_rel_Opt_One:
  "rx_rel (Opt (One p)) s c s' c' \<Longrightarrow> \<exists>g. (\<forall>x \<in> set g. p x) \<and> s = g @ s' \<and> c' = c"
proof -
  assume "rx_rel (Opt (One p)) s c s' c'"
  then consider x where "s = x # s'" "p x" "c' = c" | "s' = s" "c' = c" by auto
  then show ?thesis
  proof cases
    case 1
    then show ?thesis by (intro exI [of _ "[x]"]) simp
  next
    case 2
    then show ?thesis by (intro exI [of _ "[]"]) simp
  qed
qed

lemma rx_rel_suffix: "rx_rel r s c s' c' \<Longrightarrow> \<exists>g. s = g @ s'"
proof (induction r arbitrary: s c s' c')
  case (One p)
  then show ?case by auto
next
  case (Many p)
  then show ?case using rx_rel_Many by blast
next
  case (Many1 p)
  then show ?case using rx_rel_Many1 by blast
next
  case (Opt r)
  then show ?case by auto
next
  case (Seq r1 r2)
  then obtain s1 c1 where 1: "rx_rel r1 s c s1 c1" and 2: "rx_rel r2 s1 c1 s' c'" by auto
  obtain a where a: "s = a @ s1" using Seq.IH(1) [OF 1] by blast
  obtain b where b: "s1 = b @ s'" using Seq.IH(2) [OF 2] by blast
  show ?case by (simp add: a b)
next
  case (Group i r)
  then show ?case by auto
qed

lemma rx_rel_Opt_Group:
  "rx_rel (Opt (Group i r)) s c s' c' \<Longrightarrow>
     (s' = s \<and> c' = c) \<or> (\<exists>g c1. s = g @ s' \<and> c' = c1(i \<mapsto> g))"
proof -
  assume "rx_rel (Opt (Group i r)) s c s' c'"
  then have "(s' = s \<and> c' = c) \<or>
      (\<exists>c1. rx_rel r s c s' c1 \<and> c' = c1(i \<mapsto> take (length s - length s') s))"
    unfolding rx_rel.simps by blast
  then show ?thesis
  proof
    assume "s' = s \<and> c' = c"
    then show ?thesis by simp
  next
    assume "\<exists>c1. rx_rel r s c s' c1 \<and> c' = c1(i \<mapsto> take (length s - length s') s)"
    then obtain c1 where 1: "rx_rel r s c s' c1"
      and 2: "c' = c1(i \<mapsto> take (length s - length s') s)" by blast
    obtain g where g: "s = g @ s'" using rx_rel_suffix [OF 1] by blast
    then have "take (length s - length s') s = g" by simp
    then show ?thesis using g 2 by blast
  qed
qed

lemma re_match_rel:
  assumes "re_match r line = Some m"
  shows "\<exists>s'. rx_rel r line Map.empty s' m"
proof -
  have "rx_match r line Map.empty (\<lambda>s' c. Some c) = Some m"
    using assms by (simp add: re_match_def)
  from rx_match_SomeD [OF this]
  obtain s' c' where "rx_rel r line Map.empty s' c'" and "Some c' = Some m"
    by blast
  then show ?thesis by auto
qed

lemma rx_rel_SeqD:
  "rx_rel (Seq r1 r2) s c s' c' \<Longrightarrow> \<exists>s1 c1. rx_rel r1 s c s1 c1 \<and> rx_rel r2 s1 c1 s' c'"
  by (simp only: rx_rel.simps)

lemma ref_pattern_steps:
  assumes "rx_rel ref_pattern line c0 s' m"
  shows "\<exists>s1 c1 s2 c2 s3 c3 s4 c4.
     rx_rel (Opt (Group 1 (Seq (Many1 isdigit)
         (Seq (Opt (One (\<lambda>c. c = CHR ''.''))) (Many isspace))))) line c0 s1 c1 \<and>
     rx_rel (Group 2 (Many1 (\<lambda>c. c \<noteq> CHR ''.''))) s1 c1 s2 c2 \<and>
     rx_rel (Opt (One (\<lambda>c. c = CHR ''.''))) s2 c2 s3 c3 \<and>
     rx_rel (Many isspace) s3 c3 s4 c4 \<and>
     rx_rel (Group 3 (Many1 (\<lambda>c. c \<noteq> CHR ''/''))) s4 c4 s' m"
proof -
  from assms obtain s1 c1 where 1: "rx_rel (Opt (Group 1 (Seq (Many1 isdigit)
         (Seq (Opt (One (\<lambda>c. c = CHR ''.''))) (Many isspace))))) line c0 s1 c1"
    and r1: "rx_rel (Seq (Group 2 (Many1 (\<lambda>c. c \<noteq> CHR ''.'')))
      (Seq (Opt (One (\<lambda>c. c = CHR ''.'')))
      (Seq (Many isspace) (Group 3 (Many1 (\<lambda>c. c \<noteq> CHR ''/'')))))) s1 c1 s' m"
    unfolding ref_pattern_def using rx_rel_SeqD by blast
  from rx_rel_SeqD [OF r1] obtain s2 c2 where
    2: "rx_rel (Group 2 (Many1 (\<lambda>c. c \<noteq> CHR ''.''))) s1 c1 s2 c2"
    and r2: "rx_rel (Seq (Opt (One (\<lambda>c. c = CHR ''.'')))
      (Seq (Many isspace) (Group 3 (Many1 (\<lambda>c. c \<noteq> CHR ''/''))))) s2 c2 s' m"
    by blast
  from rx_rel_SeqD [OF r2] obtain s3 c3 where
    3: "rx_rel (Opt (One (\<lambda>c. c = CHR ''.''))) s2 c2 s3 c3"
    and r3: "rx_rel (Seq (Many isspace) (Group 3 (Many1 (\<lambda>c. c \<noteq> CHR ''/'')))) s3 c3 s' m"
    by blast
  from rx_rel_SeqD [OF r3] obtain s4 c4 where
    4: "rx_rel (Many isspace) s3 c3 s4 c4"
    and 5: "rx_rel (Group 3 (Many1 (\<lambda>c. c \<noteq> CHR ''/''))) s4 c4 s' m"
    by blast
  show ?thesis using 1 2 3 4 5 by blast
qed

lemma ref_pattern_groups:
  assumes "re_match ref_pattern line = Some m"
  shows "\<exists>sep tail. line = match_group m 1 @ match_group m 2 @ sep @ match_group m 3 @ tail \<and>
           (\<forall>x \<in> set sep. x = CHR ''.'' \<or> isspace x) \<and>
           match_group m 2 \<noteq> [] \<and> CHR ''.'' \<notin> set (match_group m 2) \<and>
           match_group m 3 \<noteq> [] \<and> CHR ''/'' \<notin> set (match_group m 3)"
proof -
  obtain s' where "rx_rel ref_pattern line Map.empty s' m"
    using re_match_rel [OF assms] by blast
  from ref_pattern_steps [OF this] obtain s1 c1 s2 c2 s3 c3 s4 c4 where
    1: "rx_rel (Opt (Group 1 (Seq (Many1 isdigit)
         (Seq (Opt (One (\<lambda>c. c = CHR ''.''))) (Many isspace))))) line Map.empty s1 c1"
    and 2: "rx_rel (Group 2 (Many1 (\<lambda>c. c \<noteq> CHR ''.''))) s1 c1 s2 c2"
    and 3: "rx_rel (Opt (One (\<lambda>c. c = CHR ''.''))) s2 c2 s3 c3"
    and 4: "rx_rel (Many isspace) s3 c3 s4 c4"
    and 5: "rx_rel (Group 3 (Many1 (\<lambda>c. c \<noteq> CHR ''/''))) s4 c4 s' m"
    by blast
  have g1: "line = match_group c1 1 @ s1"
  proof -
    from rx_rel_Opt_Group [OF 1]
    consider "s1 = line" "c1 = Map.empty" | g k where "line = g @ s1" "c1 = k(1 \<mapsto> g)"
      by blast
    then show ?thesis
    proof cases
      case 1
      then show ?thesis by (simp add: match_group_def)
    next
      case 2
      then show ?thesis by (simp add: match_group_def)
    qed
  qed
  obtain g2 where g2: "g2 \<noteq> []" "\<forall>x \<in> set g2. x \<noteq> CHR ''.''" "s1 = g2 @ s2"
    "c2 = c1(2 \<mapsto> g2)"
    using rx_rel_Group_Many1 [OF 2] by blast
  obtain d where d: "\<forall>x \<in> set d. x = CHR ''.''" "s2 = d @ s3" "c3 = c2"
    using rx_rel_Opt_One [OF 3] by blast
  obtain w where w: "\<forall>x \<in> set w. isspace x" "s3 = w @ s4" "c4 = c3"
    using rx_rel_Many [OF 4] by blast
  obtain g3 where g3: "g3 \<noteq> []" "\<forall>x \<in> set g3. x \<noteq> CHR ''/''" "s4 = g3 @ s'"
    "m = c4(3 \<mapsto> g3)"
    using rx_rel_Group_Many1 [OF 5] by blast
  have groups: "match_group m 1 = match_group c1 1" "match_group m 2 = g2" "match_group m 3 = g3"
    using g2(4) d(3) w(3) g3(4) by (simp_all add: match_group_def)
  have line: "line = match_group m 1 @ match_group m 2 @ (d @ w) @ match_group m 3 @ s'"
    using g1 g2(3) d(2) w(2) g3(3) groups by simp
  have sep: "\<forall>x \<in> set (d @ w). x = CHR ''.'' \<or> isspace x"
    using d(1) w(1) by auto
  have "match_group m 2 \<noteq> []" "CHR ''.'' \<notin> set (match_group m 2)"
    "match_group m 3 \<noteq> []" "CHR ''/'' \<notin> set (match_group m 3)"
    using g2(1,2) g3(1,2) groups by auto
  with line sep show ?thesis by blast
qed

text \<open>
  On a line the pattern matches, the segment never holds a period: the second group is
  \<^verbatim>\<open>[^\.]+\<close>. The branch of \<open>split_author_title\<close> that cuts at a period is not taken
  there, and the third group is never empty: the alternative \<open>else ''\<close> for \<open>rest\<close> is not
  taken either.
\<close>

lemma segment_without_period:
  assumes "re_match ref_pattern line = Some m"
  shows "CHR ''.'' \<notin> set (strip (match_group m 2)) \<and> match_group m 3 \<noteq> []"
proof -
  have "CHR ''.'' \<notin> set (match_group m 2)" and "match_group m 3 \<noteq> []"
    using ref_pattern_groups [OF assms] by blast+
  moreover have "set (strip (match_group m 2)) \<subseteq> set (match_group m 2)"
    by (rule set_strip)
  ultimately show ?thesis by blast
qed

text \<open>
  So every line the pattern matches gives a reference whose authors are the stripped
  second group and whose title is the stripped third group.
\<close>

lemma reference_of_line_matched:
  assumes "re_match ref_pattern line = Some m"
  shows "\<exists>r. reference_of_line line = Some r \<and>
           rd_authors r = strip (match_group m 2) \<and> rd_title r = strip (match_group m 3)"
  using assms segment_without_period [OF assms]
  by (simp add: reference_of_line_def split_author_title_def Let_def)

text \<open>
  C7 on two kept lines of a literature section.

  A line without a period, a name and a title as in a catalogue. The second group of the
  pattern gives its last character up to the third, which needs one: the authors are
  the line without its last character and the title is that character. The claim has the
  whole segment as the authors and the empty title here.

  The first reference of \<open>test_extract_literature_fallback\<close>, shortened and in Latin
  letters. The second group ends before the first period, so the authors are \<open>Ivanov I\<close>
  and the title is the rest of the line; the test expects the initials \<open>I.I\<close> among the
  authors, which the code never gives: a segment with a period, where it would cut at the
  first period, does not occur (\<open>segment_without_period\<close>).
\<close>

theorem literature_fallback_on_lines:
  "literature_of_section ''Knuth The Art of Computer Programming 1968'' =
     [\<lparr>rd_authors = ''Knuth The Art of Computer Programming 196'', rd_title = ''8'',
       rd_year = Some 1968\<rparr>] \<and>
   literature_of_section ''1. Ivanov I.I. Programming in Python. 2023.'' =
     [\<lparr>rd_authors = ''Ivanov I'', rd_title = ''I. Programming in Python. 2023.'',
       rd_year = Some 2023\<rparr>]"
proof -
  have k1: "kept_lines ''Knuth The Art of Computer Programming 1968'' =
     [''Knuth The Art of Computer Programming 1968'']"
    by (simp add: kept_lines_def strip_def isspace_def)
  have m1: "re_match ref_pattern ''Knuth The Art of Computer Programming 1968'' =
     Some [2 \<mapsto> ''Knuth The Art of Computer Programming 196'', 3 \<mapsto> ''8'']"
    by (simp add: re_match_def ref_pattern_def isdigit_def isspace_def)
  have y1: "search_year ''Knuth The Art of Computer Programming 1968'' = Some ''1968''"
    by (simp add: isdigit_def)
  have r1: "reference_of_line ''Knuth The Art of Computer Programming 1968'' =
     Some \<lparr>rd_authors = ''Knuth The Art of Computer Programming 196'', rd_title = ''8'',
       rd_year = Some 1968\<rparr>"
    unfolding reference_of_line_def m1 y1
    by (simp add: match_group_def split_author_title_def strip_def isspace_def int_of_digits_def)
  have k2: "kept_lines ''1. Ivanov I.I. Programming in Python. 2023.'' =
     [''1. Ivanov I.I. Programming in Python. 2023.'']"
    by (simp add: kept_lines_def strip_def isspace_def)
  have m2: "re_match ref_pattern ''1. Ivanov I.I. Programming in Python. 2023.'' =
     Some [1 \<mapsto> ''1. '', 2 \<mapsto> ''Ivanov I'', 3 \<mapsto> ''I. Programming in Python. 2023.'']"
    by (simp add: re_match_def ref_pattern_def isdigit_def isspace_def)
  have y2: "search_year ''1. Ivanov I.I. Programming in Python. 2023.'' = Some ''2023''"
    by (simp add: isdigit_def)
  have r2: "reference_of_line ''1. Ivanov I.I. Programming in Python. 2023.'' =
     Some \<lparr>rd_authors = ''Ivanov I'', rd_title = ''I. Programming in Python. 2023.'',
       rd_year = Some 2023\<rparr>"
    unfolding reference_of_line_def m2 y2
    by (simp add: match_group_def split_author_title_def strip_def isspace_def int_of_digits_def)
  show ?thesis
    using k1 r1 k2 r2 by (simp add: literature_of_section_def)
qed

end
